theory Spec2Isabelle
  imports Complex_Main
begin

section \<open>tplot: the Figure of figure.py\<close>

text \<open>
  A shallow embedding of \<^verbatim>\<open>tplot/figure.py\<close>. The class \<^verbatim>\<open>Figure\<close> becomes a record, its
  methods become functions that take the figure and return it updated, together with
  the value or the exception of the call. Numbers are exact rationals: the arithmetic of
  Python floats is idealised. Strings are lists of characters.

  The modules \<^verbatim>\<open>scales\<close> and \<^verbatim>\<open>utils\<close> that figure.py imports, and the host calls it makes,
  are parameters of the model: every function takes an environment record that holds them.
\<close>

subsection \<open>Exceptions and values\<close>

datatype error =
    AssertionError | IndexError | ValueError | TypeError | ZeroDivisionError
  | UnboundLocalError | AttributeError
  | ConfigurationError | MismatchedLengthError | EmptyDataError
  | NotFittedError | UnknownCategoryError | DegenerateDomainError | OutOfBoundsError

text \<open>A data value handed to a plot: a number or a label.\<close>

datatype pyval = Num rat | Str string

text \<open>Sequencing of computations that may raise.\<close>

definition ebind :: "error + 'a \<Rightarrow> ('a \<Rightarrow> error + 'b) \<Rightarrow> error + 'b" where
  "ebind m k = (case m of Inl e \<Rightarrow> Inl e | Inr v \<Rightarrow> k v)"

fun emap :: "('a \<Rightarrow> error + 'b) \<Rightarrow> 'a list \<Rightarrow> error + 'b list" where
  "emap g [] = Inr []"
| "emap g (v # vs) = ebind (g v) (\<lambda>p. ebind (emap g vs) (\<lambda>ps. Inr (p # ps)))"

text \<open>Python's \<^verbatim>\<open>min\<close> and \<^verbatim>\<open>max\<close> of a sequence: ValueError when it is empty, TypeError
  when a number meets a string; strings compare by code points.\<close>

fun str_less :: "string \<Rightarrow> string \<Rightarrow> bool" where
  "str_less [] [] = False"
| "str_less [] (b # bs) = True"
| "str_less (a # as) [] = False"
| "str_less (a # as) (b # bs) =
     (if of_char a < (of_char b :: nat) then True
      else if of_char a = (of_char b :: nat) then str_less as bs else False)"

fun py_less :: "pyval \<Rightarrow> pyval \<Rightarrow> error + bool" where
  "py_less (Num a) (Num b) = Inr (a < b)"
| "py_less (Str a) (Str b) = Inr (str_less a b)"
| "py_less (Num a) (Str b) = Inl TypeError"
| "py_less (Str a) (Num b) = Inl TypeError"

fun min_from :: "pyval \<Rightarrow> pyval list \<Rightarrow> error + pyval" where
  "min_from m [] = Inr m"
| "min_from m (v # vs) = ebind (py_less v m) (\<lambda>b. min_from (if b then v else m) vs)"

fun max_from :: "pyval \<Rightarrow> pyval list \<Rightarrow> error + pyval" where
  "max_from m [] = Inr m"
| "max_from m (v # vs) = ebind (py_less m v) (\<lambda>b. max_from (if b then v else m) vs)"

definition py_min :: "pyval list \<Rightarrow> error + pyval" where
  "py_min vs = (case vs of [] \<Rightarrow> Inl ValueError | v # rest \<Rightarrow> min_from v rest)"

definition py_max :: "pyval list \<Rightarrow> error + pyval" where
  "py_max vs = (case vs of [] \<Rightarrow> Inl ValueError | v # rest \<Rightarrow> max_from v rest)"

text \<open>Truth value of an optional string (\<^verbatim>\<open>bool(self.xlabel)\<close>, \<^verbatim>\<open>if label:\<close>).\<close>

definition truthy :: "string option \<Rightarrow> bool" where
  "truthy s = (case s of None \<Rightarrow> False | Some t \<Rightarrow> t \<noteq> [])"

definition bool_int :: "bool \<Rightarrow> int" where
  "bool_int b = (if b then 1 else 0)"

subsection \<open>The figure\<close>

text \<open>A registered plot: the \<^verbatim>\<open>partial\<close> object that a registration appends to
  \<^verbatim>\<open>_plots\<close>, with its keywords x, y and marker.\<close>

datatype plot =
    Scatter "pyval list" "pyval list" char
  | Line "pyval list" "pyval list" char
  | Bar "pyval list" "pyval list" char
  | HBar "pyval list" "pyval list" char

fun plot_x :: "plot \<Rightarrow> pyval list" where
  "plot_x (Scatter x y m) = x"
| "plot_x (Line x y m) = x"
| "plot_x (Bar x y m) = x"
| "plot_x (HBar x y m) = x"

fun plot_y :: "plot \<Rightarrow> pyval list" where
  "plot_y (Scatter x y m) = y"
| "plot_y (Line x y m) = y"
| "plot_y (Bar x y m) = y"
| "plot_y (HBar x y m) = y"

fun plot_marker :: "plot \<Rightarrow> char" where
  "plot_marker (Scatter x y m) = m"
| "plot_marker (Line x y m) = m"
| "plot_marker (Bar x y m) = m"
| "plot_marker (HBar x y m) = m"

text \<open>The tick values of an axis: the sequence that \<^verbatim>\<open>best_ticks\<close> returns, or the Python
  set built by \<^verbatim>\<open>set(self.y)\<close>, kept as its elements in the set's iteration order.\<close>

datatype ticks = TickSeq "pyval list" | TickSet "pyval list"

text \<open>The character array \<^verbatim>\<open>_canvas\<close> (a numpy array of dtype U1) with its shape.\<close>

record ndarray =
  nrows :: nat
  ncols :: nat
  cells :: "char list list"

text \<open>The attributes of a Figure. The fields \<open>cache_*\<close> are the stored values of the
  \<^verbatim>\<open>cached_property\<close> attributes, \<open>None\<close> until first computed.\<close>

record 's figure =
  xlabel :: "string option"
  ylabel :: "string option"
  title :: "string option"
  legendloc :: string
  xticklabel_length :: int
  width :: int
  height :: int
  plots :: "plot list"
  labels :: "(char \<times> string) list"
  canvas :: "ndarray option"
  cache_yscale :: "'s option"
  cache_xscale :: "'s option"
  cache_yax_width :: "int option"
  cache_ytick_values :: "ticks option"
  cache_xtick_values :: "ticks option"

text \<open>What figure.py takes from outside: the terminal size of the host, the functions of
  the modules \<^verbatim>\<open>scales\<close> and \<^verbatim>\<open>utils\<close>, the order in which a Python set iterates and the
  formatting of a float by \<^verbatim>\<open>.2g\<close>.\<close>

record 's env =
  get_terminal_size :: "int \<times> int"
  is_numerical :: "pyval list \<Rightarrow> bool"
  best_ticks :: "pyval \<Rightarrow> pyval \<Rightarrow> int \<Rightarrow> error + pyval list"
  LinearScale :: "'s"
  NominalScale :: "'s"
  fit :: "'s \<Rightarrow> pyval list \<Rightarrow> int \<Rightarrow> int \<Rightarrow> error + 's"
  transform :: "'s \<Rightarrow> pyval \<Rightarrow> error + rat"
  plot_line_segment :: "int \<Rightarrow> int \<Rightarrow> int \<Rightarrow> int \<Rightarrow> (int \<times> int) list"
  pyset :: "pyval list \<Rightarrow> pyval list"
  format_2g :: "rat \<Rightarrow> string"

text \<open>\<^verbatim>\<open>Figure.__init__\<close>: no argument is checked; a width or height that is None or 0
  is replaced by the size of the terminal, one row less for the prompt.\<close>

definition Figure_init ::
  "'s env \<Rightarrow> string option \<Rightarrow> string option \<Rightarrow> string option \<Rightarrow> int option \<Rightarrow> int option
     \<Rightarrow> string \<Rightarrow> int \<Rightarrow> error + 's figure" where
  "Figure_init env xl yl ti w h loc xtl =
     (let term_width = fst (get_terminal_size env);
          term_height = snd (get_terminal_size env) - 1
      in Inr \<lparr> xlabel = xl, ylabel = yl, title = ti, legendloc = loc,
               xticklabel_length = xtl,
               width = (case w of None \<Rightarrow> term_width | Some n \<Rightarrow> if n \<noteq> 0 then n else term_width),
               height = (case h of None \<Rightarrow> term_height | Some n \<Rightarrow> if n \<noteq> 0 then n else term_height),
               plots = [], labels = [], canvas = None,
               cache_yscale = None, cache_xscale = None, cache_yax_width = None,
               cache_ytick_values = None, cache_xtick_values = None \<rparr>)"

text \<open>The properties \<^verbatim>\<open>x\<close> and \<^verbatim>\<open>y\<close>: all values of all registered plots.\<close>

definition fig_x :: "'s figure \<Rightarrow> pyval list" where
  "fig_x f = concat (map plot_x (plots f))"

definition fig_y :: "'s figure \<Rightarrow> pyval list" where
  "fig_y f = concat (map plot_y (plots f))"

subsection \<open>Registration\<close>

text \<open>\<^verbatim>\<open>_prep\<close>: the assertion on the lengths, the first character of the marker, the legend
  entry. The result is the exception raised, if any, and the figure after the call.\<close>

definition prep ::
  "pyval list \<Rightarrow> pyval list \<Rightarrow> string \<Rightarrow> string option \<Rightarrow> 's figure
     \<Rightarrow> (error + char) \<times> 's figure" where
  "prep x y marker label f =
     (if length x \<noteq> length y then (Inl AssertionError, f)
      else case marker of
        [] \<Rightarrow> (Inl IndexError, f)
      | m # rest \<Rightarrow>
          (Inr m, case label of
                    None \<Rightarrow> f
                  | Some l \<Rightarrow> if l \<noteq> [] then f\<lparr>labels := labels f @ [(m, l)]\<rparr> else f))"

definition register ::
  "(pyval list \<Rightarrow> pyval list \<Rightarrow> char \<Rightarrow> plot) \<Rightarrow> pyval list \<Rightarrow> pyval list \<Rightarrow> string
     \<Rightarrow> string option \<Rightarrow> 's figure \<Rightarrow> (error + unit) \<times> 's figure" where
  "register kind x y marker label f =
     (case prep x y marker label f of
        (Inl e, f') \<Rightarrow> (Inl e, f')
      | (Inr m, f') \<Rightarrow> (Inr (), f'\<lparr>plots := plots f' @ [kind x y m]\<rparr>))"

definition scatter ::
  "pyval list \<Rightarrow> pyval list \<Rightarrow> string \<Rightarrow> string option \<Rightarrow> 's figure \<Rightarrow> (error + unit) \<times> 's figure" where
  "scatter = register Scatter"

definition line ::
  "pyval list \<Rightarrow> pyval list \<Rightarrow> string \<Rightarrow> string option \<Rightarrow> 's figure \<Rightarrow> (error + unit) \<times> 's figure" where
  "line = register Line"

definition bar ::
  "pyval list \<Rightarrow> pyval list \<Rightarrow> string \<Rightarrow> string option \<Rightarrow> 's figure \<Rightarrow> (error + unit) \<times> 's figure" where
  "bar = register Bar"

definition hbar ::
  "pyval list \<Rightarrow> pyval list \<Rightarrow> string \<Rightarrow> string option \<Rightarrow> 's figure \<Rightarrow> (error + unit) \<times> 's figure" where
  "hbar = register HBar"

subsection \<open>Strings and arrays\<close>

text \<open>Python's rounding of a float to an integer: \<^verbatim>\<open>round\<close> rounds a half to the even
  neighbour, \<^verbatim>\<open>int\<close> truncates towards zero.\<close>

definition py_round :: "rat \<Rightarrow> int" where
  "py_round q =
     (let n = \<lfloor>q\<rfloor>; d = q - of_int n
      in if d < 1 / 2 then n else if 1 / 2 < d then n + 1 else if even n then n else n + 1)"

definition py_int :: "rat \<Rightarrow> int" where
  "py_int q = (if 0 \<le> q then \<lfloor>q\<rfloor> else \<lceil>q\<rceil>)"

definition floordiv :: "int \<Rightarrow> int \<Rightarrow> error + int" where
  "floordiv a b = (if b = 0 then Inl ZeroDivisionError else Inr (a div b))"

text \<open>A bound of a slice \<^verbatim>\<open>[a:b]\<close> of a sequence of length \<open>n\<close>: a negative bound counts
  from the end, and every bound is clipped to the sequence.\<close>

definition clip :: "nat \<Rightarrow> int \<Rightarrow> nat" where
  "clip n i = (if i < 0 then nat (int n + i) else min n (nat i))"

definition slice :: "nat \<Rightarrow> int \<Rightarrow> int \<Rightarrow> nat list" where
  "slice n a b = [clip n a ..< clip n b]"

definition upto_stop :: "string \<Rightarrow> int \<Rightarrow> string" where
  "upto_stop s b = take (clip (length s) b) s"

definition center :: "string \<Rightarrow> int \<Rightarrow> char \<Rightarrow> string" where
  "center s w fillchar =
     (if w \<le> int (length s) then s
      else let marg = nat (w - int (length s));
               left = marg div 2 + (if odd marg \<and> odd w then 1 else 0)
           in replicate left fillchar @ s @ replicate (marg - left) fillchar)"

definition ljust :: "string \<Rightarrow> int \<Rightarrow> char \<Rightarrow> string" where
  "ljust s w fillchar = s @ replicate (nat (w - int (length s))) fillchar"

definition rjust :: "string \<Rightarrow> int \<Rightarrow> char \<Rightarrow> string" where
  "rjust s w fillchar = replicate (nat (w - int (length s))) fillchar @ s"

fun startswith :: "string \<Rightarrow> string \<Rightarrow> bool" where
  "startswith s [] = True"
| "startswith [] (p # ps) = False"
| "startswith (c # cs) (p # ps) = (c = p \<and> startswith cs ps)"

definition endswith :: "string \<Rightarrow> string \<Rightarrow> bool" where
  "endswith s p = startswith (rev s) (rev p)"


text \<open>An integer index along an axis of length \<open>n\<close>.\<close>

definition np_index :: "nat \<Rightarrow> int \<Rightarrow> error + nat" where
  "np_index n i =
     (if i < - int n \<or> int n \<le> i then Inl IndexError
      else Inr (nat (if i < 0 then int n + i else i)))"

text \<open>\<^verbatim>\<open>np.empty((height, width), dtype="U1")\<close> followed by \<^verbatim>\<open>[:] = " "\<close>.\<close>

definition np_blank :: "int \<Rightarrow> int \<Rightarrow> error + ndarray" where
  "np_blank h w =
     (if h < 0 \<or> w < 0 then Inl ValueError
      else Inr \<lparr> nrows = nat h, ncols = nat w,
                 cells = replicate (nat h) (replicate (nat w) CHR '' '') \<rparr>)"

definition put :: "ndarray \<Rightarrow> nat \<times> nat \<Rightarrow> char \<Rightarrow> ndarray" where
  "put a p ch = cells_update (\<lambda>cs. cs[fst p := (cs ! fst p)[snd p := ch]]) a"

fun put_all :: "ndarray \<Rightarrow> ((nat \<times> nat) \<times> char) list \<Rightarrow> ndarray" where
  "put_all a [] = a"
| "put_all a (pc # rest) = put_all (put a (fst pc) (snd pc)) rest"

text \<open>A view of the array: the cells that a basic index selects, in order. \<open>a[i, j]\<close> is
  one cell, \<open>a[i, lo:hi]\<close> a piece of a row, \<open>a[lo:hi, j]\<close> a piece of a column. An integer
  index out of range raises IndexError; a slice is clipped.\<close>

definition at_cell :: "ndarray \<Rightarrow> int \<Rightarrow> int \<Rightarrow> error + (nat \<times> nat) list" where
  "at_cell a i j =
     ebind (np_index (nrows a) i) (\<lambda>r. ebind (np_index (ncols a) j) (\<lambda>c. Inr [(r, c)]))"

definition row_slice :: "ndarray \<Rightarrow> int \<Rightarrow> int \<Rightarrow> int \<Rightarrow> error + (nat \<times> nat) list" where
  "row_slice a i lo hi =
     ebind (np_index (nrows a) i) (\<lambda>r. Inr (map (\<lambda>c. (r, c)) (slice (ncols a) lo hi)))"

definition col_slice :: "ndarray \<Rightarrow> int \<Rightarrow> int \<Rightarrow> int \<Rightarrow> error + (nat \<times> nat) list" where
  "col_slice a lo hi j =
     ebind (np_index (ncols a) j) (\<lambda>c. Inr (map (\<lambda>r. (r, c)) (slice (nrows a) lo hi)))"

text \<open>Assignment of one character to every cell of a view (\<^verbatim>\<open>view[...] = "c"\<close>), and of a
  list of characters (\<^verbatim>\<open>view[:] = list(s)\<close>): the list must have the length of the view, or
  length one, else numpy raises ValueError.\<close>

definition fill_view :: "ndarray \<Rightarrow> (nat \<times> nat) list \<Rightarrow> char \<Rightarrow> ndarray" where
  "fill_view a v ch = put_all a (map (\<lambda>p. (p, ch)) v)"

definition assign_view :: "ndarray \<Rightarrow> (nat \<times> nat) list \<Rightarrow> char list \<Rightarrow> error + ndarray" where
  "assign_view a v vs =
     (if length vs = length v then Inr (put_all a (zip v vs))
      else case vs of [ch] \<Rightarrow> Inr (fill_view a v ch) | _ \<Rightarrow> Inl ValueError)"

subsection \<open>Computations on the figure\<close>

text \<open>A method call: from the figure to the value or exception of the call and the figure
  afterwards.\<close>

type_synonym ('s, 'a) fm = "'s figure \<Rightarrow> (error + 'a) \<times> 's figure"

definition ret :: "'a \<Rightarrow> ('s, 'a) fm" where
  "ret v f = (Inr v, f)"

definition lift :: "error + 'a \<Rightarrow> ('s, 'a) fm" where
  "lift r f = (r, f)"

definition fbind :: "('s, 'a) fm \<Rightarrow> ('a \<Rightarrow> ('s, 'b) fm) \<Rightarrow> ('s, 'b) fm" where
  "fbind m k f = (case m f of (Inl e, f') \<Rightarrow> (Inl e, f') | (Inr v, f') \<Rightarrow> k v f')"

definition self :: "('s, 's figure) fm" where
  "self f = (Inr f, f)"

fun for_each :: "'a list \<Rightarrow> ('a \<Rightarrow> ('s, unit) fm) \<Rightarrow> ('s, unit) fm" where
  "for_each [] body = ret ()"
| "for_each (v # vs) body = fbind (body v) (\<lambda>u. for_each vs body)"

definition get_canvas :: "('s, ndarray) fm" where
  "get_canvas f = (case canvas f of None \<Rightarrow> (Inl AttributeError, f) | Some a \<Rightarrow> (Inr a, f))"

definition set_canvas :: "ndarray \<Rightarrow> ('s, unit) fm" where
  "set_canvas a f = (Inr (), f\<lparr>canvas := Some a\<rparr>)"

text \<open>\<^verbatim>\<open>functools.cached_property\<close>: the stored value when there is one, else the body is
  run and its value stored; an exception stores nothing.\<close>

definition cached ::
  "('s figure \<Rightarrow> 'a option) \<Rightarrow> ('a \<Rightarrow> 's figure \<Rightarrow> 's figure) \<Rightarrow> ('s, 'a) fm \<Rightarrow> ('s, 'a) fm" where
  "cached get store body f =
     (case get f of
        Some v \<Rightarrow> (Inr v, f)
      | None \<Rightarrow> (case body f of (Inl e, f') \<Rightarrow> (Inl e, f') | (Inr v, f') \<Rightarrow> (Inr v, store v f')))"

subsection \<open>Scales, ticks and axis sizes\<close>

definition xax_height :: "'s figure \<Rightarrow> int" where
  "xax_height f = 2 + bool_int (truthy (xlabel f))"

text \<open>\<^verbatim>\<open>_fmt\<close>: the format \<^verbatim>\<open>.2g\<close> of a number; for a string Python raises ValueError.\<close>

definition fmt :: "'s env \<Rightarrow> pyval \<Rightarrow> error + string" where
  "fmt env v = (case v of Num q \<Rightarrow> Inr (format_2g env q) | Str s \<Rightarrow> Inl ValueError)"

fun ticks_iter :: "ticks \<Rightarrow> pyval list" where
  "ticks_iter (TickSeq vs) = vs"
| "ticks_iter (TickSet vs) = vs"

text \<open>Subscription \<^verbatim>\<open>ticks[i]\<close>: a sequence is indexed, a set raises TypeError.\<close>

fun ticks_index :: "ticks \<Rightarrow> int \<Rightarrow> error + pyval" where
  "ticks_index (TickSeq vs) i = ebind (np_index (length vs) i) (\<lambda>k. Inr (vs ! k))"
| "ticks_index (TickSet vs) i = Inl TypeError"

definition max_len :: "string list \<Rightarrow> error + int" where
  "max_len ls = (case ls of [] \<Rightarrow> Inl ValueError
                 | l # rest \<Rightarrow> Inr (fold max (map (\<lambda>t. int (length t)) rest) (int (length l))))"

definition ytick_values :: "'s env \<Rightarrow> ('s, ticks) fm" where
  "ytick_values env =
     cached cache_ytick_values (\<lambda>v f. f\<lparr>cache_ytick_values := Some v\<rparr>)
       (fbind self (\<lambda>f.
          if is_numerical env (fig_y f)
          then lift (ebind (py_min (fig_y f)) (\<lambda>lo. ebind (py_max (fig_y f)) (\<lambda>hi.
                 ebind (best_ticks env lo hi (height f div 2)) (\<lambda>ts. Inr (TickSeq ts)))))
          else ret (TickSet (pyset env (fig_y f)))))"

definition xtick_values :: "'s env \<Rightarrow> ('s, ticks) fm" where
  "xtick_values env =
     cached cache_xtick_values (\<lambda>v f. f\<lparr>cache_xtick_values := Some v\<rparr>)
       (fbind self (\<lambda>f.
          if is_numerical env (fig_x f)
          then lift (ebind (py_min (fig_x f)) (\<lambda>lo. ebind (py_max (fig_x f)) (\<lambda>hi.
                 ebind (floordiv (width f) (xticklabel_length f)) (\<lambda>most.
                 ebind (best_ticks env lo hi most) (\<lambda>ts. Inr (TickSeq ts))))))
          else ret (TickSet (pyset env (fig_x f)))))"

definition yax_width :: "'s env \<Rightarrow> ('s, int) fm" where
  "yax_width env =
     cached cache_yax_width (\<lambda>v f. f\<lparr>cache_yax_width := Some v\<rparr>)
       (fbind (ytick_values env) (\<lambda>t.
        fbind (lift (emap (fmt env) (ticks_iter t))) (\<lambda>ls.
        fbind (lift (max_len ls)) (\<lambda>w.
        fbind self (\<lambda>f. ret (w + 1 + bool_int (truthy (ylabel f)) * 2))))))"

definition new_scale :: "'s env \<Rightarrow> pyval list \<Rightarrow> 's" where
  "new_scale env vs = (if is_numerical env vs then LinearScale env else NominalScale env)"

definition yscale :: "'s env \<Rightarrow> ('s, 's) fm" where
  "yscale env =
     cached cache_yscale (\<lambda>v f. f\<lparr>cache_yscale := Some v\<rparr>)
       (fbind self (\<lambda>f.
          let scale = new_scale env (fig_y f);
              target_min = xax_height f - bool_int (truthy (xlabel f)) + 1;
              target_max = height f - 1 - bool_int (truthy (title f))
          in fbind (lift (fit env scale (fig_y f) target_min target_max)) (\<lambda>scale.
             if is_numerical env (fig_y f)
             then fbind (ytick_values env) (\<lambda>t.
                    lift (fit env scale (ticks_iter t) target_min target_max))
             else ret scale)))"

definition xscale :: "'s env \<Rightarrow> ('s, 's) fm" where
  "xscale env =
     cached cache_xscale (\<lambda>v f. f\<lparr>cache_xscale := Some v\<rparr>)
       (fbind self (\<lambda>f.
          let scale = new_scale env (fig_x f)
          in fbind (yax_width env) (\<lambda>target_min.
             let target_max = width f - 1
             in fbind (lift (fit env scale (fig_x f) target_min target_max)) (\<lambda>scale.
                if is_numerical env (fig_x f)
                then fbind (xtick_values env) (\<lambda>t.
                       lift (fit env scale (ticks_iter t) target_min target_max))
                else ret scale))))"

subsection \<open>Drawing\<close>

text \<open>Reading and writing the canvas. \<^verbatim>\<open>self._canvas[index]\<close> as a value is a view, the
  index given as a function of the array; \<^verbatim>\<open>view[:] = list(s)\<close> and \<^verbatim>\<open>view[...] = "c"\<close>
  write through it.\<close>

definition canvas_view :: "(ndarray \<Rightarrow> error + (nat \<times> nat) list) \<Rightarrow> ('s, (nat \<times> nat) list) fm" where
  "canvas_view ix = fbind get_canvas (\<lambda>a. lift (ix a))"

definition view_assign :: "(nat \<times> nat) list \<Rightarrow> string \<Rightarrow> ('s, unit) fm" where
  "view_assign v s = fbind get_canvas (\<lambda>a. fbind (lift (assign_view a v s)) set_canvas)"

definition view_fill :: "(nat \<times> nat) list \<Rightarrow> char \<Rightarrow> ('s, unit) fm" where
  "view_fill v ch = fbind get_canvas (\<lambda>a. set_canvas (fill_view a v ch))"

text \<open>\<^verbatim>\<open>self._canvas[index] = "c"\<close> and \<^verbatim>\<open>self._canvas[index] = list(s)\<close>.\<close>

definition canvas_fill :: "(ndarray \<Rightarrow> error + (nat \<times> nat) list) \<Rightarrow> char \<Rightarrow> ('s, unit) fm" where
  "canvas_fill ix ch = fbind (canvas_view ix) (\<lambda>v. view_fill v ch)"

definition canvas_assign :: "(ndarray \<Rightarrow> error + (nat \<times> nat) list) \<Rightarrow> string \<Rightarrow> ('s, unit) fm" where
  "canvas_assign ix s = fbind (canvas_view ix) (\<lambda>v. view_assign v s)"

text \<open>\<^verbatim>\<open>_center_draw\<close>, \<^verbatim>\<open>_ljust_draw\<close>, \<^verbatim>\<open>_rjust_draw\<close>: the string, padded to the length of
  the view, is assigned to the view.\<close>

definition center_draw :: "string \<Rightarrow> (nat \<times> nat) list \<Rightarrow> ('s, unit) fm" where
  "center_draw s v = view_assign v (center s (int (length v)) CHR '' '')"

definition ljust_draw :: "string \<Rightarrow> (nat \<times> nat) list \<Rightarrow> ('s, unit) fm" where
  "ljust_draw s v = view_assign v (ljust s (int (length v)) CHR '' '')"

definition rjust_draw :: "string \<Rightarrow> (nat \<times> nat) list \<Rightarrow> ('s, unit) fm" where
  "rjust_draw s v = view_assign v (rjust s (int (length v)) CHR '' '')"

text \<open>\<^verbatim>\<open>round(scale.transform(ticks[i]))\<close>, with the scale and the ticks read in the
  order of the source.\<close>

definition tick_pos ::
  "'s env \<Rightarrow> ('s, 's) fm \<Rightarrow> ('s, ticks) fm \<Rightarrow> int \<Rightarrow> ('s, int) fm" where
  "tick_pos env scale tick_values i =
     fbind scale (\<lambda>sc. fbind tick_values (\<lambda>t. fbind (lift (ticks_index t i)) (\<lambda>v.
     fbind (lift (transform env sc v)) (\<lambda>p. ret (py_round p)))))"

text \<open>\<^verbatim>\<open>zip(ticks, scale.transform(ticks))\<close>.\<close>

definition ticks_with_pos ::
  "'s env \<Rightarrow> ('s, 's) fm \<Rightarrow> ('s, ticks) fm \<Rightarrow> ('s, (pyval \<times> rat) list) fm" where
  "ticks_with_pos env scale tick_values =
     fbind tick_values (\<lambda>t. fbind scale (\<lambda>sc. fbind tick_values (\<lambda>t'.
     fbind (lift (emap (transform env sc) (ticks_iter t'))) (\<lambda>ps.
     ret (zip (ticks_iter t) ps)))))"

definition draw_y_axis :: "'s env \<Rightarrow> ('s, unit) fm" where
  "draw_y_axis env =
     fbind (tick_pos env (yscale env) (ytick_values env) 0) (\<lambda>start.
     fbind (tick_pos env (yscale env) (ytick_values env) (- 1)) (\<lambda>stop.
     fbind get_canvas (\<lambda>a0.
     fbind (yax_width env) (\<lambda>w.
     fbind (canvas_fill (\<lambda>a. col_slice a (- stop - 1) (- start) (w - 1)) CHR ''|'') (\<lambda>u.
     fbind (ticks_with_pos env (yscale env) (ytick_values env)) (\<lambda>tps.
     fbind (for_each tps (\<lambda>(val, p).
        let pos = py_round p - 1 in
        fbind (lift (fmt env val)) (\<lambda>label.
        fbind get_canvas (\<lambda>a1.
        fbind (yax_width env) (\<lambda>w.
        fbind (canvas_fill (\<lambda>a. at_cell a (stop - pos) (w - 1)) CHR ''+'') (\<lambda>u.
        fbind self (\<lambda>f.
        fbind get_canvas (\<lambda>a2.
        fbind (yax_width env) (\<lambda>w.
        fbind (canvas_view (\<lambda>a. row_slice a (stop - pos) (bool_int (truthy (ylabel f)) * 2) (w - 1))) (\<lambda>v.
        rjust_draw label v)))))))))) (\<lambda>u.
     fbind self (\<lambda>f.
       if truthy (ylabel f)
       then fbind (canvas_view (\<lambda>a. col_slice a start stop 0)) (\<lambda>v.
            center_draw (upto_stop (the (ylabel f)) (stop - start)) v)
       else ret ()))))))))"

definition draw_x_axis :: "'s env \<Rightarrow> ('s, unit) fm" where
  "draw_x_axis env =
     fbind (tick_pos env (xscale env) (xtick_values env) 0) (\<lambda>start.
     fbind (tick_pos env (xscale env) (xtick_values env) (- 1)) (\<lambda>stop.
     fbind self (\<lambda>f.
     fbind (canvas_fill (\<lambda>a. row_slice a (- xax_height f) start stop) CHR ''-'') (\<lambda>u.
     let n_before = xticklabel_length f div 2;
         n_after = xticklabel_length f - n_before
     in
     fbind (ticks_with_pos env (xscale env) (xtick_values env)) (\<lambda>tps.
     fbind (for_each tps (\<lambda>(val, p).
        let pos = py_round p in
        fbind (lift (fmt env val)) (\<lambda>label.
        fbind (canvas_fill (\<lambda>a. at_cell a (- xax_height f) pos) CHR ''+'') (\<lambda>u.
        if pos = start
        then fbind (canvas_view (\<lambda>a. row_slice a (- xax_height f + 1) pos (pos + n_after)))
               (ljust_draw (upto_stop label n_after))
        else if pos = stop
        then fbind (canvas_view (\<lambda>a. row_slice a (- xax_height f + 1) (pos - n_before) (pos + 1)))
               (rjust_draw (upto_stop label (n_before + 1)))
        else fbind (canvas_view (\<lambda>a. row_slice a (- xax_height f + 1) (pos - n_before) (pos + n_after)))
               (center_draw (upto_stop label (xticklabel_length f))))))) (\<lambda>u.
     if truthy (xlabel f)
     then fbind (canvas_view (\<lambda>a. row_slice a (- 1) start stop))
            (center_draw (upto_stop (the (xlabel f)) (stop - start)))
     else ret ()))))))"

text \<open>The drawing functions that the registrations defer. \<^verbatim>\<open>scale.transform(x)\<close> of a
  sequence transforms every element.\<close>

definition transform_all :: "'s env \<Rightarrow> ('s, 's) fm \<Rightarrow> pyval list \<Rightarrow> ('s, rat list) fm" where
  "transform_all env scale vs = fbind scale (\<lambda>sc. lift (emap (transform env sc) vs))"

definition draw_scatter :: "'s env \<Rightarrow> pyval list \<Rightarrow> pyval list \<Rightarrow> char \<Rightarrow> ('s, unit) fm" where
  "draw_scatter env x y marker =
     fbind (transform_all env (xscale env) x) (\<lambda>xs.
     fbind (transform_all env (yscale env) y) (\<lambda>ys.
     for_each (zip xs ys) (\<lambda>(xi, yi).
       canvas_fill (\<lambda>a. at_cell a (- py_round yi - 1) (py_round xi)) marker)))"

definition draw_line :: "'s env \<Rightarrow> pyval list \<Rightarrow> pyval list \<Rightarrow> char \<Rightarrow> ('s, unit) fm" where
  "draw_line env x y marker =
     fbind (transform_all env (xscale env) x) (\<lambda>xs.
     fbind (transform_all env (yscale env) y) (\<lambda>ys.
     for_each (zip (zip (butlast xs) (tl xs)) (zip (butlast ys) (tl ys))) (\<lambda>((x0, x1), (y0, y1)).
       for_each (plot_line_segment env (py_round x0) (py_round y0) (py_round x1) (py_round y1))
         (\<lambda>(px, py). canvas_fill (\<lambda>a. at_cell a (- py - 1) px) marker))))"

definition draw_bar :: "'s env \<Rightarrow> pyval list \<Rightarrow> pyval list \<Rightarrow> char \<Rightarrow> ('s, unit) fm" where
  "draw_bar env x y marker =
     fbind (yscale env) (\<lambda>sc.
     fbind (lift (py_min y)) (\<lambda>m.
     fbind (lift (transform env sc m)) (\<lambda>bottom.
     fbind (transform_all env (xscale env) x) (\<lambda>xs.
     fbind (transform_all env (yscale env) y) (\<lambda>ys.
     for_each (zip xs ys) (\<lambda>(xi, yi).
       canvas_fill (\<lambda>a. col_slice a (- py_round yi - 1) (- py_int bottom) (py_round xi)) marker))))))"

definition draw_hbar :: "'s env \<Rightarrow> pyval list \<Rightarrow> pyval list \<Rightarrow> char \<Rightarrow> ('s, unit) fm" where
  "draw_hbar env x y marker =
     fbind (xscale env) (\<lambda>sc.
     fbind (lift (py_min x)) (\<lambda>m.
     fbind (lift (transform env sc m)) (\<lambda>start.
     fbind (transform_all env (xscale env) x) (\<lambda>xs.
     fbind (transform_all env (yscale env) y) (\<lambda>ys.
     for_each (zip xs ys) (\<lambda>(xi, yi).
       canvas_fill (\<lambda>a. row_slice a (- py_round yi - 1) (py_int start) (py_round xi)) marker))))))"

fun draw_plot :: "'s env \<Rightarrow> plot \<Rightarrow> ('s, unit) fm" where
  "draw_plot env (Scatter x y m) = draw_scatter env x y m"
| "draw_plot env (Line x y m) = draw_line env x y m"
| "draw_plot env (Bar x y m) = draw_bar env x y m"
| "draw_plot env (HBar x y m) = draw_hbar env x y m"

text \<open>\<^verbatim>\<open>_draw_legend\<close>. The locals \<^verbatim>\<open>top\<close> and \<^verbatim>\<open>left\<close> stay unbound when \<^verbatim>\<open>legendloc\<close> names
  no corner; reading them then raises UnboundLocalError.\<close>

definition labelstrings :: "'s figure \<Rightarrow> string list" where
  "labelstrings f = map (\<lambda>(marker, label). marker # CHR '' '' # label) (labels f)"

definition legend_width :: "string list \<Rightarrow> error + int" where
  "legend_width ls = ebind (max_len ls) (\<lambda>w. Inr (max (w + 2) (int (length ''Legend'') + 2)))"

definition local_var :: "int option \<Rightarrow> error + int" where
  "local_var v = (case v of None \<Rightarrow> Inl UnboundLocalError | Some n \<Rightarrow> Inr n)"

definition legend_pos :: "'s env \<Rightarrow> ('s, 's) fm \<Rightarrow> error + pyval \<Rightarrow> ('s, rat) fm" where
  "legend_pos env scale extreme =
     fbind scale (\<lambda>sc. fbind (lift extreme) (\<lambda>m. lift (transform env sc m)))"

definition draw_legend :: "'s env \<Rightarrow> ('s, unit) fm" where
  "draw_legend env =
     fbind self (\<lambda>f.
     let ls = labelstrings f in
     fbind (lift (legend_width ls)) (\<lambda>width.
     let height = int (length ls) + 2 in
     fbind (if startswith (legendloc f) ''top''
            then fbind (legend_pos env (yscale env) (py_max (fig_y f)))
                   (\<lambda>p. ret (Some (- py_int p - 1)))
            else if startswith (legendloc f) ''bottom''
            then fbind (legend_pos env (yscale env) (py_min (fig_y f)))
                   (\<lambda>p. ret (Some (- py_int p - height)))
            else ret None) (\<lambda>top.
     fbind (if endswith (legendloc f) ''right''
            then fbind (legend_pos env (xscale env) (py_max (fig_x f)))
                   (\<lambda>p. ret (Some (py_int p - width + 1)))
            else if endswith (legendloc f) ''left''
            then fbind (legend_pos env (xscale env) (py_min (fig_x f)))
                   (\<lambda>p. ret (Some (py_int p)))
            else ret None) (\<lambda>left.
     fbind get_canvas (\<lambda>a0.
     fbind (lift (local_var top)) (\<lambda>top.
     fbind (lift (local_var left)) (\<lambda>left.
     fbind (canvas_assign (\<lambda>a. row_slice a top left (left + width))
              (CHR ''+'' # center ''Legend'' (width - 2) CHR ''-'' @ ''+'')) (\<lambda>u.
     fbind (for_each (enumerate 0 ls) (\<lambda>(i, labelstring).
              canvas_assign (\<lambda>a. row_slice a (top + int i + 1) left (left + width))
                (CHR ''|'' # ljust labelstring (width - 2) CHR '' '' @ ''|''))) (\<lambda>u.
     canvas_assign (\<lambda>a. row_slice a (top + int (length ls) + 1) left (left + width))
       (CHR ''+'' # replicate (nat (width - 2)) CHR ''-'' @ ''+''))))))))))"

text \<open>\<^verbatim>\<open>draw\<close> and \<^verbatim>\<open>__repr__\<close>.\<close>

definition draw :: "'s env \<Rightarrow> ('s, unit) fm" where
  "draw env =
     fbind self (\<lambda>f.
     fbind (lift (np_blank (height f) (width f))) (\<lambda>a.
     fbind (set_canvas a) (\<lambda>u.
     fbind (if truthy (title f)
            then fbind (canvas_view (\<lambda>a. row_slice a 0 0 (int (ncols a))))
                   (center_draw (upto_stop (the (title f)) (width f)))
            else ret ()) (\<lambda>u.
     fbind (draw_x_axis env) (\<lambda>u.
     fbind (draw_y_axis env) (\<lambda>u.
     fbind (for_each (plots f) (draw_plot env)) (\<lambda>u.
     if labels f \<noteq> [] then draw_legend env else ret ())))))))"


subsection \<open>The imported modules, after the specification\<close>

text \<open>
  Modelled from the spec: the modules \<^verbatim>\<open>tplot/scales.py\<close> and \<^verbatim>\<open>tplot/utils.py\<close>
  (\<^verbatim>\<open>LinearScale\<close>, \<^verbatim>\<open>NominalScale\<close>, \<^verbatim>\<open>is_numerical\<close>, \<^verbatim>\<open>best_ticks\<close>, \<^verbatim>\<open>plot_line_segment\<close>) are
  not among the sources. The definitions below follow sections 3, 4.1, 4.2 and 4.3 of the
  specification. They give one environment in which the functions of figure.py can be run.
\<close>

datatype scale =
    Linear_unfit | Nominal_unfit
  | Linear_fit rat rat int int
  | Nominal_fit "pyval list" int int

fun is_Num :: "pyval \<Rightarrow> bool" where
  "is_Num (Num q) = True"
| "is_Num (Str s) = False"

text \<open>Modelled from the spec: the classification predicate of section 3, on the whole
  collection.\<close>

definition spec_is_numerical :: "pyval list \<Rightarrow> bool" where
  "spec_is_numerical vs = list_all is_Num vs"

definition num_of :: "pyval \<Rightarrow> error + rat" where
  "num_of v = (case v of Num q \<Rightarrow> Inr q | Str s \<Rightarrow> Inl TypeError)"

text \<open>Modelled from the spec: the labels of a categorical domain in a stable order, the
  order of first occurrence.\<close>

definition first_occurrences :: "pyval list \<Rightarrow> pyval list" where
  "first_occurrences vs = rev (remdups (rev vs))"

text \<open>Modelled from the spec: \<^verbatim>\<open>fit\<close> of section 4.1. A domain needs a value.\<close>

fun spec_fit :: "scale \<Rightarrow> pyval list \<Rightarrow> int \<Rightarrow> int \<Rightarrow> error + scale" where
  "spec_fit (Nominal_unfit) vs t0 t1 =
     (if vs = [] then Inl EmptyDataError else Inr (Nominal_fit (first_occurrences vs) t0 t1))"
| "spec_fit (Nominal_fit d a b) vs t0 t1 =
     (if vs = [] then Inl EmptyDataError else Inr (Nominal_fit (first_occurrences vs) t0 t1))"
| "spec_fit sc vs t0 t1 =
     (if vs = [] then Inl EmptyDataError
      else ebind (py_min vs) (\<lambda>lo. ebind (py_max vs) (\<lambda>hi.
           ebind (num_of lo) (\<lambda>a. ebind (num_of hi) (\<lambda>b. Inr (Linear_fit a b t0 t1))))))"

fun index_of :: "pyval \<Rightarrow> pyval list \<Rightarrow> nat option" where
  "index_of v [] = None"
| "index_of v (w # ws) = (if v = w then Some 0 else map_option Suc (index_of v ws))"

text \<open>Modelled from the spec: \<^verbatim>\<open>transform\<close> of section 4.1.\<close>

fun spec_transform :: "scale \<Rightarrow> pyval \<Rightarrow> error + rat" where
  "spec_transform Linear_unfit v = Inl NotFittedError"
| "spec_transform Nominal_unfit v = Inl NotFittedError"
| "spec_transform (Linear_fit a b t0 t1) v =
     ebind (num_of v) (\<lambda>q.
       if a = b then Inr ((of_int t0 + of_int t1) / 2)
       else Inr (of_int t0 + (q - a) / (b - a) * (of_int t1 - of_int t0)))"
| "spec_transform (Nominal_fit d t0 t1) v =
     (case index_of v d of
        None \<Rightarrow> Inl UnknownCategoryError
      | Some i \<Rightarrow>
          if length d = 1 then Inr (of_int t0)
          else Inr (of_int t0 + of_nat i * (of_int t1 - of_int t0) / (of_nat (length d) - 1)))"

definition pow10 :: "int \<Rightarrow> rat" where
  "pow10 k = (if 0 \<le> k then 10 ^ nat k else 1 / 10 ^ nat (- k))"

text \<open>Modelled from the spec: the candidate steps \<open>{1, 2, 5} \<times> 10^k\<close> of section 4.2, for
  \<open>- n \<le> k \<le> n\<close>, in ascending order.\<close>

definition nice_candidates :: "nat \<Rightarrow> rat list" where
  "nice_candidates n =
     concat (map (\<lambda>i. map (\<lambda>c. c * pow10 (int i - int n)) [1, 2, 5]) [0 ..< 2 * n + 1])"

text \<open>Modelled from the spec: the smallest candidate step such that
  \<open>ceil((max - min) / step) + 1 \<le> most\<close>; a budget below two counts as two.\<close>

definition nice_step :: "rat \<Rightarrow> int \<Rightarrow> error + rat" where
  "nice_step r most =
     (let m = max most 2;
          t = r / of_int (m - 1);
          n = nat \<lceil>t\<rceil> + nat \<lceil>1 / t\<rceil>
      in case filter (\<lambda>s. \<lceil>r / s\<rceil> + 1 \<le> m) (nice_candidates n) of
           [] \<Rightarrow> Inl DegenerateDomainError
         | s # rest \<Rightarrow> Inr s)"

text \<open>Modelled from the spec: \<^verbatim>\<open>best_ticks\<close> of section 4.2. The first tick is the largest
  multiple of the step at or below the minimum, the last the smallest multiple at or above
  the maximum.\<close>

definition spec_best_ticks :: "pyval \<Rightarrow> pyval \<Rightarrow> int \<Rightarrow> error + pyval list" where
  "spec_best_ticks lo hi most =
     ebind (num_of lo) (\<lambda>a. ebind (num_of hi) (\<lambda>b.
       if b < a then Inl DegenerateDomainError
       else if a = b then Inr [Num a]
       else ebind (nice_step (b - a) most) (\<lambda>s.
         let first = s * of_int \<lfloor>a / s\<rfloor>;
             last = s * of_int \<lceil>b / s\<rceil>
         in Inr (map (\<lambda>i. Num (first + of_nat i * s)) [0 ..< Suc (nat \<lfloor>(last - first) / s\<rfloor>)]))))"

text \<open>Modelled from the spec: the line rasteriser of section 4.3, in integer arithmetic:
  one point for each step along the longer side, the other coordinate rounded.\<close>

definition spec_line_segment :: "int \<Rightarrow> int \<Rightarrow> int \<Rightarrow> int \<Rightarrow> (int \<times> int) list" where
  "spec_line_segment x0 y0 x1 y1 =
     (let n = max \<bar>x1 - x0\<bar> \<bar>y1 - y0\<bar>
      in if n = 0 then [(x0, y0)]
         else map (\<lambda>i. (x0 + (2 * int i * (x1 - x0) + n) div (2 * n),
                         y0 + (2 * int i * (y1 - y0) + n) div (2 * n))) [0 ..< Suc (nat n)])"

text \<open>Python's format \<^verbatim>\<open>.2g\<close> on an exact rational: two significant digits, rounded half
  to even; fixed notation for a decimal exponent from -4 to 1, else scientific notation;
  trailing zeros removed. Python formats the binary float, this function the rational
  itself: the two agree on every value that a float holds exactly (the integers and the
  halves and quarters that the examples below use), and can differ on a decimal tie such
  as 1.05, where the float nearest to it lies below the tie.\<close>

fun digits10 :: "nat \<Rightarrow> nat" where
  "digits10 n = (if n < 10 then 1 else Suc (digits10 (n div 10)))"

fun decimal :: "nat \<Rightarrow> string" where
  "decimal n = (if n < 10 then [char_of (48 + n)] else decimal (n div 10) @ [char_of (48 + n mod 10)])"

definition exp10 :: "rat \<Rightarrow> int" where
  "exp10 a =
     (let k = int (digits10 (nat (fst (quotient_of a)))) - int (digits10 (nat (snd (quotient_of a))))
      in if pow10 k \<le> a then k else k - 1)"

definition py_format_2g :: "rat \<Rightarrow> string" where
  "py_format_2g v =
     (if v = 0 then ''0''
      else
        let a = \<bar>v\<bar>;
            e0 = exp10 a;
            m0 = py_round (a / pow10 (e0 - 1));
            e = (if m0 = 100 then e0 + 1 else e0);
            m = (if m0 = 100 then 10 else m0);
            d1 = char_of (48 + nat (m div 10));
            d2 = char_of (48 + nat (m mod 10));
            frac = (if m mod 10 = 0 then [] else [d2])
        in (if v < 0 then ''-'' else [])
           @ (if e < - 4 \<or> 2 \<le> e
              then d1 # (if frac = [] then [] else CHR ''.'' # frac)
                   @ CHR ''e'' # (if e < 0 then CHR ''-'' else CHR ''+'')
                   # (if \<bar>e\<bar> < 10 then CHR ''0'' # decimal (nat \<bar>e\<bar>) else decimal (nat \<bar>e\<bar>))
              else if e = 1 then [d1, d2]
              else if e = 0 then d1 # (if frac = [] then [] else CHR ''.'' # frac)
              else ''0.'' @ replicate (nat (- e - 1)) CHR ''0'' @ d1 # frac))"

definition spec_env :: "scale env" where
  "spec_env =
     \<lparr> get_terminal_size = (80, 24),
       is_numerical = spec_is_numerical,
       best_ticks = spec_best_ticks,
       LinearScale = Linear_unfit,
       NominalScale = Nominal_unfit,
       fit = spec_fit,
       transform = spec_transform,
       plot_line_segment = spec_line_segment,
       pyset = first_occurrences,
       format_2g = py_format_2g \<rparr>"

subsection \<open>Example figures\<close>

text \<open>\<^verbatim>\<open>Figure(width=20, height=10)\<close>, and the same after
  \<^verbatim>\<open>scatter([1, 2, 3], [1, 2, 3])\<close>.\<close>

definition fig_20x10 :: "scale figure" where
  "fig_20x10 = projr (Figure_init spec_env None None None (Some 20) (Some 10) ''topright'' 7)"

definition fig_scatter :: "scale figure" where
  "fig_scatter = snd (scatter [Num 1, Num 2, Num 3] [Num 1, Num 2, Num 3] ''o'' None fig_20x10)"


text \<open>\<^verbatim>\<open>Figure(width=20, height=10)\<close> after \<^verbatim>\<open>scatter(["a", "b", "c"], [1, 2, 3])\<close>:
  labels on the x axis.\<close>

definition fig_categorical :: "scale figure" where
  "fig_categorical =
     snd (scatter [Str ''a'', Str ''b'', Str ''c''] [Num 1, Num 2, Num 3] ''o'' None fig_20x10)"


text \<open>Python's \<^verbatim>\<open>s.split("\n")\<close>.\<close>

fun split_lines :: "string \<Rightarrow> string list" where
  "split_lines [] = [[]]"
| "split_lines (c # cs) =
     (if c = CHR 0x0A then [] # split_lines cs
      else case split_lines cs of [] \<Rightarrow> [[c]] | l # ls \<Rightarrow> (c # l) # ls)"

subsection \<open>Invariants\<close>

text \<open>A computation preserves an invariant of the figure when the figure after the call
  satisfies it whenever the figure before did, whether the call returns or raises.\<close>

definition preserves :: "('s figure \<Rightarrow> bool) \<Rightarrow> ('s, 'a) fm \<Rightarrow> bool" where
  "preserves I m = (\<forall>f. I f \<longrightarrow> I (snd (m f)))"



text \<open>The canvas is an array of \<open>h\<close> rows of \<open>w\<close> characters.\<close>

definition shape_ok :: "nat \<Rightarrow> nat \<Rightarrow> ndarray \<Rightarrow> bool" where
  "shape_ok h w a = (nrows a = h \<and> ncols a = w \<and> length (cells a) = h
                     \<and> (\<forall>r \<in> set (cells a). length r = w))"


section \<open>Properties\<close>

subsection \<open>Running computations\<close>

lemma ebind_Inl [simp]: "ebind (Inl e) k = Inl e"
  by (simp add: ebind_def)

lemma ebind_Inr [simp]: "ebind (Inr v) k = k v"
  by (simp add: ebind_def)

lemma ebind_eq_Inr: "ebind m k = Inr r \<longleftrightarrow> (\<exists>v. m = Inr v \<and> k v = Inr r)"
  by (cases m) simp_all

lemma ret_apply: "ret v f = (Inr v, f)"
  by (simp add: ret_def)

lemma lift_apply: "lift r f = (r, f)"
  by (simp add: lift_def)


lemma fbind_Inl: "m f = (Inl e, f') \<Longrightarrow> fbind m k f = (Inl e, f')"
  by (simp add: fbind_def)

lemma fbind_Inr: "m f = (Inr v, f') \<Longrightarrow> fbind m k f = k v f'"
  by (simp add: fbind_def)

lemma fbind_cases:
  obtains (raises) e f' where "m f = (Inl e, f')" "fbind m k f = (Inl e, f')"
  | (returns) v f' where "m f = (Inr v, f')" "fbind m k f = k v f'"
proof (cases "m f")
  case (Pair r f')
  then show ?thesis
    by (cases r) (auto simp add: fbind_def intro: raises returns)
qed


subsection \<open>Preservation of invariants\<close>

lemma preservesD: "preserves I m \<Longrightarrow> I f \<Longrightarrow> m f = (r, f') \<Longrightarrow> I f'"
  by (auto simp add: preserves_def)

lemma preserves_ret: "preserves I (ret v)"
  by (simp add: preserves_def ret_apply)

lemma preserves_lift: "preserves I (lift r)"
  by (simp add: preserves_def lift_apply)



lemma preserves_fbind:
  assumes "preserves I m" "\<And>v. preserves I (k v)"
  shows "preserves I (fbind m k)"
  unfolding preserves_def
proof (intro allI impI)
  fix f assume "I f"
  show "I (snd (fbind m k f))"
  proof (cases rule: fbind_cases [of m f k])
    case (raises e f')
    with assms(1) \<open>I f\<close> show ?thesis by (auto dest: preservesD)
  next
    case (returns v f')
    with assms(1) \<open>I f\<close> have "I f'" by (auto dest: preservesD)
    with assms(2) [of v] returns show ?thesis by (simp add: preserves_def)
  qed
qed


lemma preserves_if:
  "(c \<Longrightarrow> preserves I a) \<Longrightarrow> (\<not> c \<Longrightarrow> preserves I b) \<Longrightarrow> preserves I (if c then a else b)"
  by simp



lemma preserves_Let: "preserves I (k v) \<Longrightarrow> preserves I (Let v k)"
  by simp

lemma preserves_cached:
  assumes "preserves I body" "\<And>v f. I f \<Longrightarrow> I (store v f)"
  shows "preserves I (cached get store body)"
  unfolding preserves_def cached_def
proof (intro allI impI)
  fix f assume "I f"
  obtain r f' where b: "body f = (r, f')" by (cases "body f")
  with assms(1) \<open>I f\<close> have "I f'" by (auto dest: preservesD)
  with b assms(2) \<open>I f\<close>
  show "I (snd (case get f of None \<Rightarrow>
                   (case body f of (Inl e, f') \<Rightarrow> (Inl e, f') | (Inr v, f') \<Rightarrow> (Inr v, store v f'))
                 | Some v \<Rightarrow> (Inr v, f)))"
    by (cases "get f"; cases r) simp_all
qed


































lemma fbind_set_canvas: "fbind (set_canvas a) k f = k () (f\<lparr>canvas := Some a\<rparr>)"
  by (simp add: fbind_def set_canvas_def)

lemma fbind_lift: "fbind (lift r) k f = (case r of Inl e \<Rightarrow> (Inl e, f) | Inr v \<Rightarrow> k v f)"
  by (simp add: fbind_def lift_def split: sum.splits)

lemma fbind_self: "fbind self k f = k f f"
  by (simp add: fbind_def self_def)

text \<open>What \<open>draw\<close> does after the canvas is allocated.\<close>

lemma draw_unfold:
  "draw env f =
     (case np_blank (height f) (width f) of
        Inl e \<Rightarrow> (Inl e, f)
      | Inr a \<Rightarrow>
          fbind (if truthy (title f)
                 then fbind (canvas_view (\<lambda>a. row_slice a 0 0 (int (ncols a))))
                        (center_draw (upto_stop (the (title f)) (width f)))
                 else ret ()) (\<lambda>u.
          fbind (draw_x_axis env) (\<lambda>u.
          fbind (draw_y_axis env) (\<lambda>u.
          fbind (for_each (plots f) (draw_plot env)) (\<lambda>u.
          if labels f \<noteq> [] then draw_legend env else ret ()))))
            (f\<lparr>canvas := Some a\<rparr>))"
  by (simp add: draw_def fbind_self fbind_lift fbind_set_canvas split: sum.splits)


lemma np_blank_shape:
  "np_blank h w = Inr a \<Longrightarrow> 0 \<le> h \<and> 0 \<le> w \<and> shape_ok (nat h) (nat w) a"
  by (auto simp add: np_blank_def shape_ok_def split: if_splits)


subsection \<open>Registration and construction\<close>

lemma register_mismatch:
  "length x \<noteq> length y \<Longrightarrow> register kind x y marker label f = (Inl AssertionError, f)"
  by (simp add: register_def prep_def)

lemma register_ok:
  "length x = length y \<Longrightarrow>
   register kind x y (c # rest) label f =
     (Inr (), f\<lparr>labels := labels f @ (case label of None \<Rightarrow> []
                                        | Some l \<Rightarrow> if l \<noteq> [] then [(c, l)] else []),
               plots := plots f @ [kind x y c]\<rparr>)"
  by (simp add: register_def prep_def split: option.splits)

text \<open>
  Claim C2, as the code has it: when the lengths of x and y differ, each of scatter, line,
  bar and hbar raises (the \<^verbatim>\<open>assert\<close> of \<^verbatim>\<open>_prep\<close>, an AssertionError) and leaves the figure
  exactly as it was: no plot and no legend entry is added.
\<close>

theorem mismatched_lengths_rejected:
  "length x \<noteq> length y \<Longrightarrow>
     scatter x y marker label f = (Inl AssertionError, f)
   \<and> line x y marker label f = (Inl AssertionError, f)
   \<and> bar x y marker label f = (Inl AssertionError, f)
   \<and> hbar x y marker label f = (Inl AssertionError, f)"
  by (simp add: scatter_def line_def bar_def hbar_def register_mismatch)

theorem mismatched_lengths_rejected_witness:
  "scatter [Num 1, Num 2] [Num 1, Num 2, Num 3] ''o'' None fig_20x10 = (Inl AssertionError, fig_20x10)
   \<and> plots fig_20x10 = [] \<and> labels fig_20x10 = []"
  using mismatched_lengths_rejected [of "[Num 1, Num 2]" "[Num 1, Num 2, Num 3]" "''o''" None fig_20x10]
  by (simp add: fig_20x10_def Figure_init_def)

text \<open>
  The exception of \<^verbatim>\<open>scatter([1, 2], [1, 2, 3])\<close> on \<^verbatim>\<open>Figure(width=20, height=10)\<close> is the
  AssertionError, not a MismatchedLengthError.
\<close>

theorem mismatched_lengths_not_MismatchedLengthError:
  "fst (scatter [Num 1, Num 2] [Num 1, Num 2, Num 3] ''o'' None fig_20x10) = Inl AssertionError
   \<and> fst (scatter [Num 1, Num 2] [Num 1, Num 2, Num 3] ''o'' None fig_20x10)
       \<noteq> Inl MismatchedLengthError"
  by (simp add: scatter_def register_def prep_def)

text \<open>
  Claim C6, as the code has it: the constructor checks nothing and never fails. It stores
  \<^verbatim>\<open>legendloc\<close> and \<^verbatim>\<open>xticklabel_length\<close> as given, and the width and the height as given
  unless they are None or 0, which the size of the terminal replaces.
\<close>

theorem Figure_init_never_fails:
  "\<exists>f. Figure_init env xl yl ti w h loc xtl = Inr f
     \<and> legendloc f = loc \<and> xticklabel_length f = xtl
     \<and> width f = (case w of None \<Rightarrow> fst (get_terminal_size env)
                   | Some n \<Rightarrow> if n \<noteq> 0 then n else fst (get_terminal_size env))
     \<and> height f = (case h of None \<Rightarrow> snd (get_terminal_size env) - 1
                   | Some n \<Rightarrow> if n \<noteq> 0 then n else snd (get_terminal_size env) - 1)
     \<and> plots f = [] \<and> labels f = []"
  by (simp add: Figure_init_def Let_def)

theorem Figure_init_never_fails_witness:
  "\<exists>f. Figure_init spec_env None None None (Some (- 5)) (Some 0) ''middle'' 0 = Inr f
     \<and> legendloc f = ''middle'' \<and> xticklabel_length f = 0 \<and> width f = - 5 \<and> height f = 23"
  using Figure_init_never_fails [of spec_env None None None "Some (- 5)" "Some 0" "''middle''" 0]
  by (auto simp add: spec_env_def)

text \<open>
  \<^verbatim>\<open>Figure(width=-5, height=-3, legendloc="middle", xticklabel_length=0)\<close> is constructed:
  no ConfigurationError.
\<close>

theorem Figure_init_no_ConfigurationError:
  "Figure_init spec_env None None None (Some (- 5)) (Some (- 3)) ''middle'' 0
     \<noteq> Inl ConfigurationError
   \<and> (\<exists>f. Figure_init spec_env None None None (Some (- 5)) (Some (- 3)) ''middle'' 0 = Inr f)"
  by (simp add: Figure_init_def Let_def)

text \<open>
  Claim C8: a registration with a non-empty marker uses the first character of the marker
  only. The call with the marker \<open>c # rest\<close> does what the call with the marker \<open>[c]\<close> does;
  when the lengths agree the plot entry carries \<open>c\<close>, which is the character every drawing
  function writes, and the legend entry of a non-empty label is \<open>(c, label)\<close>.
\<close>

theorem marker_first_character:
  "scatter x y (c # rest) label f = scatter x y [c] label f
   \<and> line x y (c # rest) label f = line x y [c] label f
   \<and> bar x y (c # rest) label f = bar x y [c] label f
   \<and> hbar x y (c # rest) label f = hbar x y [c] label f
   \<and> (length x = length y \<longrightarrow>
        scatter x y (c # rest) label f =
          (Inr (), f\<lparr>labels := labels f @ (case label of None \<Rightarrow> []
                                             | Some l \<Rightarrow> if l \<noteq> [] then [(c, l)] else []),
                    plots := plots f @ [Scatter x y c]\<rparr>)
      \<and> line x y (c # rest) label f =
          (Inr (), f\<lparr>labels := labels f @ (case label of None \<Rightarrow> []
                                             | Some l \<Rightarrow> if l \<noteq> [] then [(c, l)] else []),
                    plots := plots f @ [Line x y c]\<rparr>)
      \<and> bar x y (c # rest) label f =
          (Inr (), f\<lparr>labels := labels f @ (case label of None \<Rightarrow> []
                                             | Some l \<Rightarrow> if l \<noteq> [] then [(c, l)] else []),
                    plots := plots f @ [Bar x y c]\<rparr>)
      \<and> hbar x y (c # rest) label f =
          (Inr (), f\<lparr>labels := labels f @ (case label of None \<Rightarrow> []
                                             | Some l \<Rightarrow> if l \<noteq> [] then [(c, l)] else []),
                    plots := plots f @ [HBar x y c]\<rparr>))"
  by (simp add: scatter_def line_def bar_def hbar_def register_def prep_def split: option.splits)

theorem marker_first_character_witness:
  "snd (scatter [Num 1] [Num 2] ''ox'' (Some ''a'') fig_20x10)
     = fig_20x10\<lparr>labels := [(CHR ''o'', ''a'')], plots := [Scatter [Num 1] [Num 2] CHR ''o'']\<rparr>"
proof -
  have "scatter [Num 1] [Num 2] ''ox'' (Some ''a'') fig_20x10 =
          (Inr (), fig_20x10\<lparr>labels := labels fig_20x10 @ [(CHR ''o'', ''a'')],
                             plots := plots fig_20x10 @ [Scatter [Num 1] [Num 2] CHR ''o'']\<rparr>)"
    using marker_first_character [of "[Num 1]" "[Num 2]" "CHR ''o''" "''x''" "Some ''a''" fig_20x10,
        THEN conjunct2, THEN conjunct2, THEN conjunct2, THEN conjunct2]
    by simp
  then show ?thesis
    by (simp add: fig_20x10_def Figure_init_def)
qed

subsection \<open>The shape of the rendered text\<close>





lemma split_lines_not_Nil: "split_lines s \<noteq> []"
  by (induction s) (auto split: list.splits)








subsection \<open>Drawing with no registered plot\<close>

lemma ytick_values_empty:
  assumes "plots f = []"
    "cache_ytick_values f = None \<or> cache_ytick_values f = Some (TickSet [])" "pyset env [] = []"
  shows "ytick_values env f = (Inl ValueError, f) \<or> (\<exists>f'. ytick_values env f = (Inr (TickSet []), f'))"
proof (cases "is_numerical env []")
  case True
  with assms show ?thesis
    by (auto simp add: ytick_values_def cached_def fig_y_def py_min_def lift_apply fbind_self)
next
  case False
  with assms show ?thesis
    by (auto simp add: ytick_values_def cached_def fig_y_def ret_apply fbind_self)
qed

lemma fbind_ret: "fbind (ret v) k f = k v f"
  by (simp add: fbind_def ret_def)

lemma yax_width_empty:
  assumes "plots f = []"
    "cache_ytick_values f = None \<or> cache_ytick_values f = Some (TickSet [])"
    "cache_yax_width f = None" "pyset env [] = []"
  shows "\<exists>f'. yax_width env f = (Inl ValueError, f')"
proof -
  from ytick_values_empty [OF assms(1,2,4)]
  show ?thesis
  proof (elim disjE exE)
    assume "ytick_values env f = (Inl ValueError, f)"
    then show ?thesis using assms(3)
      by (simp add: yax_width_def cached_def fbind_Inl)
  next
    fix f' assume "ytick_values env f = (Inr (TickSet []), f')"
    then show ?thesis using assms(3)
      by (simp add: yax_width_def cached_def fbind_Inr fbind_lift max_len_def)
  qed
qed

lemma xscale_empty:
  assumes "plots f = []"
    "cache_ytick_values f = None \<or> cache_ytick_values f = Some (TickSet [])"
    "cache_yax_width f = None" "cache_xscale f = None" "pyset env [] = []"
  shows "\<exists>f'. xscale env f = (Inl ValueError, f')"
proof -
  from yax_width_empty [OF assms(1,2,3,5)]
  obtain f' where "yax_width env f = (Inl ValueError, f')" by blast
  then show ?thesis using assms(4)
    by (simp add: xscale_def cached_def Let_def fbind_self fbind_Inl)
qed

lemma draw_x_axis_empty:
  assumes "plots f = []"
    "cache_ytick_values f = None \<or> cache_ytick_values f = Some (TickSet [])"
    "cache_yax_width f = None" "cache_xscale f = None" "pyset env [] = []"
  shows "\<exists>f'. draw_x_axis env f = (Inl ValueError, f')"
proof -
  from xscale_empty [OF assms]
  obtain f' where "xscale env f = (Inl ValueError, f')" by blast
  then show ?thesis
    by (simp add: draw_x_axis_def tick_pos_def fbind_Inl)
qed

lemma length_upto_stop: "0 \<le> b \<Longrightarrow> int (length (upto_stop s b)) \<le> b"
  by (simp add: upto_stop_def clip_def)

lemma length_center: "0 \<le> w \<Longrightarrow> length (center s w c) = max (length s) (nat w)"
  by (auto simp add: center_def Let_def)

lemma length_slice_full: "length (slice n 0 (int n)) = n"
  by (simp add: slice_def clip_def)

lemma title_step:
  assumes "canvas f = Some a" "0 < nrows a"
  shows "\<exists>a'. fbind (canvas_view (\<lambda>a. row_slice a 0 0 (int (ncols a))))
               (center_draw (upto_stop t (int (ncols a)))) f = (Inr (), f\<lparr>canvas := Some a'\<rparr>)"
proof -
  let ?v = "map (\<lambda>c. (0::nat, c)) (slice (ncols a) 0 (int (ncols a)))"
  have v: "canvas_view (\<lambda>a. row_slice a 0 0 (int (ncols a))) f = (Inr ?v, f)"
    using assms by (simp add: canvas_view_def get_canvas_def fbind_def row_slice_def np_index_def lift_apply)
  have len: "length (center (upto_stop t (int (ncols a))) (int (length ?v)) CHR '' '') = length ?v"
    using length_upto_stop [of "int (ncols a)" t]
    by (simp add: length_center length_slice_full)
  show ?thesis
    using assms(1) len
    by (auto simp add: v center_draw_def view_assign_def get_canvas_def fbind_def
        assign_view_def lift_apply set_canvas_def)
qed

lemma title_no_row:
  assumes "canvas f = Some a" "nrows a = 0"
  shows "fbind (canvas_view (\<lambda>a. row_slice a 0 0 (int (ncols a)))) k f = (Inl IndexError, f)"
proof -
  have "canvas_view (\<lambda>a. row_slice a 0 0 (int (ncols a))) f = (Inl IndexError, f)"
    using assms
    by (simp add: canvas_view_def get_canvas_def fbind_def row_slice_def np_index_def lift_apply)
  then show ?thesis by (rule fbind_Inl)
qed

text \<open>
  Claim C7, as the code has it: \<^verbatim>\<open>draw\<close> on a figure with no registered plot always
  fails at draw time, and never with an EmptyDataError, which figure.py does not have.
  The exception is an IndexError when a title is set, the height is 0 (the default height
  in a terminal of one line) and the width is not negative, since the title then has no
  row to go to; in every other case it is a ValueError (from numpy for a negative size,
  else from \<^verbatim>\<open>min\<close> or \<^verbatim>\<open>max\<close> of an empty sequence). The hypotheses on the stored
  values hold for a figure fresh from the constructor and after any number of such failed
  draws; the last one says that the Python set of no values has no element.
\<close>

theorem draw_without_plots:
  assumes "plots f = []"
    and "cache_ytick_values f = None \<or> cache_ytick_values f = Some (TickSet [])"
    and "cache_yax_width f = None" and "cache_xscale f = None"
    and "pyset env [] = []"
  shows "fst (draw env f) =
           (if truthy (title f) \<and> height f = 0 \<and> 0 \<le> width f then Inl IndexError
            else Inl ValueError)"
proof (cases "np_blank (height f) (width f)")
  case (Inl e)
  then show ?thesis
    by (auto simp add: draw_unfold np_blank_def split: if_splits)
next
  case (Inr a)
  from np_blank_shape [OF Inr]
  have s: "0 \<le> height f" "0 \<le> width f" "nrows a = nat (height f)" "ncols a = nat (width f)"
    by (auto simp add: shape_ok_def)
  let ?f1 = "f\<lparr>canvas := Some a\<rparr>"
  have x: "\<exists>f'. draw_x_axis env (g\<lparr>canvas := c\<rparr>) = (Inl ValueError, f')" if "g = f" for g c
    using that assms by (intro draw_x_axis_empty) simp_all
  show ?thesis
  proof (cases "truthy (title f)")
    case False
    with x [of f "Some a"] Inr show ?thesis
      by (auto simp add: draw_unfold fbind_ret fbind_Inl)
  next
    case True
    show ?thesis
    proof (cases "height f = 0")
      case True
      with s have "nrows a = 0" by simp
      with title_no_row [of ?f1 a "center_draw (upto_stop (the (title f)) (width f))"]
      have t: "fbind (canvas_view (\<lambda>a. row_slice a 0 0 (int (ncols a))))
              (center_draw (upto_stop (the (title f)) (width f))) ?f1 = (Inl IndexError, ?f1)"
        by simp
      with \<open>truthy (title f)\<close> Inr True s(2) show ?thesis
        by (simp add: draw_unfold fbind_Inl [where m = "fbind (canvas_view (\<lambda>a. row_slice a 0 0 (int (ncols a))))
              (center_draw (upto_stop (the (title f)) (width f)))"])
    next
      case False
      with s have "0 < nrows a" by simp
      with title_step [of ?f1 a "the (title f)"] s obtain a' where
        t: "fbind (canvas_view (\<lambda>a. row_slice a 0 0 (int (ncols a))))
              (center_draw (upto_stop (the (title f)) (width f))) ?f1 = (Inr (), ?f1\<lparr>canvas := Some a'\<rparr>)"
        by auto
      from x [of f "Some a'"] obtain f' where "draw_x_axis env (?f1\<lparr>canvas := Some a'\<rparr>) = (Inl ValueError, f')"
        by auto
      with \<open>truthy (title f)\<close> False Inr t show ?thesis
        by (simp add: draw_unfold fbind_Inr [where m = "fbind (canvas_view (\<lambda>a. row_slice a 0 0 (int (ncols a))))
              (center_draw (upto_stop (the (title f)) (width f)))"] fbind_Inl)
    qed
  qed
qed

theorem draw_without_plots_witness:
  "fst (draw spec_env
     (projr (Figure_init spec_env None None (Some ''title'') (Some 20) (Some 10) ''topright'' 7)))
   = Inl ValueError
   \<and> fst (draw (spec_env\<lparr>get_terminal_size := (80, 1)\<rparr>)
     (projr (Figure_init (spec_env\<lparr>get_terminal_size := (80, 1)\<rparr>) None None (Some ''title'') None None ''topright'' 7)))
   = Inl IndexError"
  using draw_without_plots [of
      "projr (Figure_init spec_env None None (Some ''title'') (Some 20) (Some 10) ''topright'' 7)"
      spec_env]
    draw_without_plots [of
      "projr (Figure_init (spec_env\<lparr>get_terminal_size := (80, 1)\<rparr>) None None (Some ''title'') None None ''topright'' 7)"
      "spec_env\<lparr>get_terminal_size := (80, 1)\<rparr>"]
  by (simp add: Figure_init_def spec_env_def first_occurrences_def truthy_def)

text \<open>\<^verbatim>\<open>Figure(width=20, height=10).draw()\<close> raises ValueError, not an EmptyDataError.\<close>

theorem draw_without_plots_not_EmptyDataError:
  "fst (draw spec_env fig_20x10) = Inl ValueError
   \<and> fst (draw spec_env fig_20x10) \<noteq> Inl EmptyDataError"
  by code_simp

subsection \<open>The tick budget of a numeric axis\<close>

lemma cached_miss:
  "get f = None \<Longrightarrow> cached get store body f =
     (case body f of (Inl e, f') \<Rightarrow> (Inl e, f') | (Inr v, f') \<Rightarrow> (Inr v, store v f'))"
  by (simp add: cached_def)

lemma ytick_values_numeric:
  assumes "is_numerical env (fig_y f)" "cache_ytick_values f = None" "ytick_values env f = (Inr t, f')"
  shows "\<exists>lo hi ts. py_min (fig_y f) = Inr lo \<and> py_max (fig_y f) = Inr hi
           \<and> best_ticks env lo hi (height f div 2) = Inr ts \<and> t = TickSeq ts"
  using assms
  by (auto simp add: ytick_values_def cached_miss fbind_self lift_apply ebind_eq_Inr
      split: sum.splits)

lemma xtick_values_numeric:
  assumes "is_numerical env (fig_x f)" "cache_xtick_values f = None" "xtick_values env f = (Inr t, f')"
  shows "xticklabel_length f \<noteq> 0 \<and>
         (\<exists>lo hi ts. py_min (fig_x f) = Inr lo \<and> py_max (fig_x f) = Inr hi
           \<and> best_ticks env lo hi (width f div xticklabel_length f) = Inr ts \<and> t = TickSeq ts)"
  using assms
  by (auto simp add: xtick_values_def cached_miss fbind_self lift_apply ebind_eq_Inr floordiv_def
      split: sum.splits if_splits)

text \<open>
  Claim C10, as the code has it: for a numeric axis whose ticks are not yet stored, the
  ticks of the y axis are what \<^verbatim>\<open>best_ticks\<close> returns for the extremes of the y values and
  the budget \<open>height div 2\<close>, and the ticks of the x axis what it returns for the budget
  \<open>width div xticklabel_length\<close>. The figure takes every tick the selector returns: it
  does not cut the sequence to the budget.
\<close>

theorem tick_budget_requested:
  "(is_numerical env (fig_y f) \<and> cache_ytick_values f = None \<and> ytick_values env f = (Inr t, f')
      \<longrightarrow> (\<exists>lo hi ts. py_min (fig_y f) = Inr lo \<and> py_max (fig_y f) = Inr hi
             \<and> best_ticks env lo hi (height f div 2) = Inr ts \<and> t = TickSeq ts))
   \<and> (is_numerical env (fig_x f) \<and> cache_xtick_values f = None \<and> xtick_values env f = (Inr t', f'')
      \<longrightarrow> xticklabel_length f \<noteq> 0
          \<and> (\<exists>lo hi ts. py_min (fig_x f) = Inr lo \<and> py_max (fig_x f) = Inr hi
             \<and> best_ticks env lo hi (width f div xticklabel_length f) = Inr ts \<and> t' = TickSeq ts))"
  using ytick_values_numeric [of env f t f'] xtick_values_numeric [of env f t' f'']
  by blast

lemma scatter_yticks:
  "fst (ytick_values spec_env fig_scatter) = Inr (TickSeq [Num 1, Num (3 / 2), Num 2, Num (5 / 2), Num 3])
   \<and> is_numerical spec_env (fig_y fig_scatter) \<and> cache_ytick_values fig_scatter = None
   \<and> height fig_scatter div 2 = 5"
  by code_simp

theorem tick_budget_requested_witness:
  "\<exists>lo hi. best_ticks spec_env lo hi 5 = Inr [Num 1, Num (3 / 2), Num 2, Num (5 / 2), Num 3]
     \<and> fst (ytick_values spec_env fig_scatter) = Inr (TickSeq [Num 1, Num (3 / 2), Num 2, Num (5 / 2), Num 3])"
proof -
  obtain f' where "ytick_values spec_env fig_scatter =
      (Inr (TickSeq [Num 1, Num (3 / 2), Num 2, Num (5 / 2), Num 3]), f')"
    using scatter_yticks by (cases "ytick_values spec_env fig_scatter") simp
  with tick_budget_requested [of spec_env fig_scatter
      "TickSeq [Num 1, Num (3 / 2), Num 2, Num (5 / 2), Num 3]" f', THEN conjunct1] scatter_yticks
  show ?thesis by auto
qed

text \<open>
  With the tick selector modelled from section 4.2 of the specification, the figure of
  width 20 with \<^verbatim>\<open>scatter([1, 2, 3], [1, 2, 3])\<close> has the x budget \<open>20 div 7 = 2\<close> and the
  three x ticks 0, 2, 4.
\<close>

theorem more_ticks_than_budget:
  "\<exists>ts. fst (xtick_values spec_env fig_scatter) = Inr (TickSeq ts)
      \<and> width fig_scatter div xticklabel_length fig_scatter = 2 \<and> length ts = 3"
proof -
  have "fst (xtick_values spec_env fig_scatter) = Inr (TickSeq [Num 0, Num 2, Num 4])
      \<and> width fig_scatter div xticklabel_length fig_scatter = 2"
    by code_simp
  then show ?thesis by simp
qed

subsection \<open>The ticks of a categorical axis\<close>

lemma preserves_fbind_self:
  "(\<And>g. I g \<Longrightarrow> preserves I (k g)) \<Longrightarrow> preserves I (fbind self k)"
  by (simp add: preserves_def fbind_self)

lemma xtick_values_categorical:
  assumes "\<not> is_numerical env (fig_x f)" "cache_xtick_values f = None"
  shows "xtick_values env f =
           (Inr (TickSet (pyset env (fig_x f))),
            f\<lparr>cache_xtick_values := Some (TickSet (pyset env (fig_x f)))\<rparr>)"
  using assms by (simp add: xtick_values_def cached_miss fbind_self ret_apply)

lemma ytick_values_categorical:
  assumes "\<not> is_numerical env (fig_y f)" "cache_ytick_values f = None"
  shows "ytick_values env f =
           (Inr (TickSet (pyset env (fig_y f))),
            f\<lparr>cache_ytick_values := Some (TickSet (pyset env (fig_y f)))\<rparr>)"
  using assms by (simp add: ytick_values_def cached_miss fbind_self ret_apply)

lemma xscale_keeps_xticks:
  assumes "\<not> is_numerical env (fig_x f)"
  shows "preserves (\<lambda>g. plots g = plots f \<and> cache_xtick_values g = None) (xscale env)"
  unfolding xscale_def yax_width_def ytick_values_def
  apply (intro preserves_cached preserves_fbind_self preserves_fbind preserves_Let preserves_lift
      preserves_ret preserves_if)
  using assms by (simp_all add: fig_x_def)

lemma yscale_keeps_yticks:
  assumes "\<not> is_numerical env (fig_y f)"
  shows "preserves (\<lambda>g. plots g = plots f \<and> cache_ytick_values g = None) (yscale env)"
  unfolding yscale_def
  apply (intro preserves_cached preserves_fbind_self preserves_fbind preserves_Let preserves_lift
      preserves_ret preserves_if)
  using assms by (simp_all add: fig_y_def)

lemma draw_x_axis_categorical:
  assumes "\<not> is_numerical env (fig_x f)" "cache_xtick_values f = None"
  shows "fst (draw_x_axis env f) = Inl TypeError
         \<or> (\<exists>e. fst (xscale env f) = Inl e \<and> fst (draw_x_axis env f) = Inl e)"
proof (cases "xscale env f")
  case (Pair r f1)
  show ?thesis
  proof (cases r)
    case (Inl e)
    with Pair have "tick_pos env (xscale env) (xtick_values env) 0 f = (Inl e, f1)"
      by (simp add: tick_pos_def fbind_Inl)
    then have "draw_x_axis env f = (Inl e, f1)"
      by (simp add: draw_x_axis_def fbind_Inl)
    with Pair Inl show ?thesis by simp
  next
    case (Inr sc)
    from preservesD [OF xscale_keeps_xticks [OF assms(1)] _ Pair] assms(2)
    have f1: "plots f1 = plots f" "cache_xtick_values f1 = None" by simp_all
    with assms(1) have "\<not> is_numerical env (fig_x f1)" by (simp add: fig_x_def)
    from xtick_values_categorical [OF this f1(2)] Pair Inr
    have "\<exists>f2. tick_pos env (xscale env) (xtick_values env) 0 f = (Inl TypeError, f2)"
      by (simp add: tick_pos_def fbind_Inr fbind_lift)
    then obtain f2 where "tick_pos env (xscale env) (xtick_values env) 0 f = (Inl TypeError, f2)" ..
    then have "draw_x_axis env f = (Inl TypeError, f2)"
      by (simp add: draw_x_axis_def fbind_Inl)
    then show ?thesis by simp
  qed
qed

lemma draw_y_axis_categorical:
  assumes "\<not> is_numerical env (fig_y f)" "cache_ytick_values f = None"
  shows "fst (draw_y_axis env f) = Inl TypeError
         \<or> (\<exists>e. fst (yscale env f) = Inl e \<and> fst (draw_y_axis env f) = Inl e)"
proof (cases "yscale env f")
  case (Pair r f1)
  show ?thesis
  proof (cases r)
    case (Inl e)
    with Pair have "tick_pos env (yscale env) (ytick_values env) 0 f = (Inl e, f1)"
      by (simp add: tick_pos_def fbind_Inl)
    then have "draw_y_axis env f = (Inl e, f1)"
      by (simp add: draw_y_axis_def fbind_Inl)
    with Pair Inl show ?thesis by simp
  next
    case (Inr sc)
    from preservesD [OF yscale_keeps_yticks [OF assms(1)] _ Pair] assms(2)
    have f1: "plots f1 = plots f" "cache_ytick_values f1 = None" by simp_all
    with assms(1) have "\<not> is_numerical env (fig_y f1)" by (simp add: fig_y_def)
    from ytick_values_categorical [OF this f1(2)] Pair Inr
    have "\<exists>f2. tick_pos env (yscale env) (ytick_values env) 0 f = (Inl TypeError, f2)"
      by (simp add: tick_pos_def fbind_Inr fbind_lift)
    then obtain f2 where "tick_pos env (yscale env) (ytick_values env) 0 f = (Inl TypeError, f2)" ..
    then have "draw_y_axis env f = (Inl TypeError, f2)"
      by (simp add: draw_y_axis_def fbind_Inl)
    then show ?thesis by simp
  qed
qed

lemma categorical_draw_value:
  "fst (draw spec_env fig_categorical) = Inl TypeError
   \<and> fst (xscale spec_env fig_categorical) = Inr (Nominal_fit [Str ''a'', Str ''b'', Str ''c''] 4 19)
   \<and> \<not> is_numerical spec_env (fig_x fig_categorical)
   \<and> cache_xtick_values fig_categorical = None
   \<and> pyset spec_env (fig_x fig_categorical) = [Str ''a'', Str ''b'', Str ''c'']"
  by code_simp

text \<open>
  Claim C1 against the code. For an axis whose values are not numeric and whose ticks are
  not yet stored, the tick values are the Python set of all the values of the axis,
  whatever the tick budget is (it is not even computed). But the axis drawing subscripts
  the tick values with \<open>[0]\<close> and \<open>[-1]\<close>, and a set is not subscriptable: unless the
  scale itself fails, \<^verbatim>\<open>_draw_x_axis\<close> and \<^verbatim>\<open>_draw_y_axis\<close> raise TypeError, and no order of
  the labels is ever used. So \<^verbatim>\<open>draw\<close> of \<^verbatim>\<open>Figure(width=20, height=10)\<close> after
  \<^verbatim>\<open>scatter(["a", "b", "c"], [1, 2, 3])\<close> raises TypeError.
\<close>

theorem categorical_ticks_not_subscriptable:
  "(\<not> is_numerical env (fig_x f) \<and> cache_xtick_values f = None \<longrightarrow>
      fst (xtick_values env f) = Inr (TickSet (pyset env (fig_x f)))
      \<and> (fst (draw_x_axis env f) = Inl TypeError
         \<or> (\<exists>e. fst (xscale env f) = Inl e \<and> fst (draw_x_axis env f) = Inl e)))
   \<and> (\<not> is_numerical env (fig_y f) \<and> cache_ytick_values f = None \<longrightarrow>
      fst (ytick_values env f) = Inr (TickSet (pyset env (fig_y f)))
      \<and> (fst (draw_y_axis env f) = Inl TypeError
         \<or> (\<exists>e. fst (yscale env f) = Inl e \<and> fst (draw_y_axis env f) = Inl e)))
   \<and> ticks_index (TickSet vs) 0 = Inl TypeError \<and> ticks_index (TickSet vs) (- 1) = Inl TypeError
   \<and> fst (draw spec_env fig_categorical) = Inl TypeError"
  using draw_x_axis_categorical [of env f] draw_y_axis_categorical [of env f]
    xtick_values_categorical [of env f] ytick_values_categorical [of env f] categorical_draw_value
  by simp

theorem categorical_ticks_not_subscriptable_witness:
  "fst (xtick_values spec_env fig_categorical) = Inr (TickSet [Str ''a'', Str ''b'', Str ''c''])
   \<and> fst (draw_x_axis spec_env fig_categorical) = Inl TypeError"
  using categorical_ticks_not_subscriptable [of spec_env fig_categorical, THEN conjunct1]
    categorical_draw_value
  by auto

subsection \<open>The cells of a bar plot\<close>
















end
